theory Spec2Isabelle
  imports Complex_Main
begin

section \<open>DobbyCaption: the two-stage caption pipeline of src/App.tsx\<close>

text \<open>
  The component \<open>App\<close> chains two remote inference calls. \<open>analyzeImageWithQwen\<close> sends
  the uploaded image to a vision model and reads a scene description from the reply;
  \<open>generateCaptionWithDobby\<close> sends that description and the selected tone to a text
  model and reads the caption; \<open>handleGenerate\<close> runs both inside one \<open>try\<close>/\<open>catch\<close>
  and writes the caption, or the error text, into the component state.

  The functions are asynchronous in the source. Here every awaited promise is taken to
  settle: a fulfilled promise is \<open>Inr\<close> of its value, a rejected one \<open>Inl\<close> of what was
  thrown. The browser and the network are a record of functions, \<open>env\<close>.
\<close>

subsection \<open>JavaScript values\<close>

text \<open>
  What \<open>response.json()\<close> can produce, together with \<open>undefined\<close>, which a property read
  produces. A number is the exact value of the double; both zeros are the rational 0.
  An object is the list of its own properties, each name once.
\<close>

type_synonym number = rat

datatype jsval =
    JUndefined
  | JNull
  | JBool bool
  | JNum number
  | JStr string
  | JArr "jsval list"
  | JObj "(string \<times> jsval) list"

text \<open>\<open>v == null\<close>: the values at which \<open>?.\<close> and \<open>??\<close> give up.\<close>

fun nullish :: "jsval \<Rightarrow> bool" where
  "nullish JUndefined = True"
| "nullish JNull = True"
| "nullish _ = False"

text \<open>ToBoolean, which decides \<open>||\<close> (NaN does not occur in parsed JSON).\<close>

fun truthy :: "jsval \<Rightarrow> bool" where
  "truthy JUndefined = False"
| "truthy JNull = False"
| "truthy (JBool b) = b"
| "truthy (JNum n) = (n \<noteq> 0)"
| "truthy (JStr s) = (s \<noteq> [])"
| "truthy (JArr _) = True"
| "truthy (JObj _) = True"

text \<open>
  \<open>v.name\<close> on a value that is not nullish, for the names the program reads
  (\<open>choices\<close>, \<open>message\<close>, \<open>content\<close>): no prototype defines them, so only an object that
  has the property itself yields a value.
\<close>

fun get_member :: "jsval \<Rightarrow> string \<Rightarrow> jsval" where
  "get_member (JObj ps) name = (case map_of ps name of Some v \<Rightarrow> v | None \<Rightarrow> JUndefined)"
| "get_member _ name = JUndefined"

text \<open>
  \<open>v[0]\<close> on a value that is not nullish: the first element of an array, the first
  code unit of a string, the property \<open>"0"\<close> of an object.
\<close>

fun get_first :: "jsval \<Rightarrow> jsval" where
  "get_first (JArr []) = JUndefined"
| "get_first (JArr (x # xs)) = x"
| "get_first (JStr []) = JUndefined"
| "get_first (JStr (c # cs)) = JStr [c]"
| "get_first (JObj ps) = (case map_of ps ''0'' of Some v \<Rightarrow> v | None \<Rightarrow> JUndefined)"
| "get_first _ = JUndefined"

text \<open>Optional chaining: \<open>v?.name\<close> and \<open>v?.[0]\<close>.\<close>

definition opt_member :: "jsval \<Rightarrow> string \<Rightarrow> jsval" where
  "opt_member v name = (if nullish v then JUndefined else get_member v name)"

definition opt_first :: "jsval \<Rightarrow> jsval" where
  "opt_first v = (if nullish v then JUndefined else get_first v)"

subsection \<open>Thrown values\<close>

text \<open>
  \<open>Error\<close> is \<open>new Error(msg)\<close>, thrown by the program. \<open>TypeError\<close> is raised by the
  engine. \<open>Rejected\<close> is the value an awaited browser promise rejected with, given by its
  \<open>message\<close> property when it has one (a failing \<open>FileReader\<close> rejects with a
  \<open>ProgressEvent\<close>, which has none).
\<close>

datatype js_error =
    Error string
  | TypeError string
  | Rejected "string option"

text \<open>\<open>"" + error.message\<close>: an absent property reads \<open>undefined\<close>.\<close>

fun message_text :: "js_error \<Rightarrow> string" where
  "message_text (Error m) = m"
| "message_text (TypeError m) = m"
| "message_text (Rejected (Some m)) = m"
| "message_text (Rejected None) = ''undefined''"

subsection \<open>Requests and responses\<close>

record message =
  role :: string
  content :: jsval

text \<open>The object given to \<open>JSON.stringify\<close>, before it is serialised.\<close>

record payload =
  model :: string
  max_tokens :: number
  top_p :: number
  top_k :: number
  presence_penalty :: number
  frequency_penalty :: number
  temperature :: number
  messages :: "message list"

record request =
  url :: string
  http_method :: string
  headers :: "(string \<times> string) list"
  body :: payload

text \<open>
  A \<open>Response\<close>: \<open>text_result\<close> and \<open>json_result\<close> are what \<open>response.text()\<close> and
  \<open>response.json()\<close> settle to.
\<close>

record response =
  ok :: bool
  statusText :: string
  text_result :: "js_error + string"
  json_result :: "js_error + jsval"

text \<open>A \<open>File\<close>: its media type and its bytes.\<close>

record js_file =
  file_type :: string
  file_bytes :: string

text \<open>
  The surroundings of the component: the two build-time variables of \<open>import.meta.env\<close>
  (absent, or a string), \<open>FileReader.readAsDataURL\<close>, \<open>fetch\<close>, and the message the
  engine gives the TypeError for reading the named property of \<open>null\<close> or \<open>undefined\<close>.
\<close>

record env =
  VITE_QWEN_KEY :: "string option"
  VITE_DOBBY_KEY :: "string option"
  readAsDataURL :: "js_file \<Rightarrow> js_error + string"
  fetch :: "request \<Rightarrow> js_error + response"
  nullReadMessage :: "string \<Rightarrow> string"

subsection \<open>What a run does, as a trace\<close>

text \<open>
  The claims speak of clients being invoked and of network calls being made, so each
  function also returns the events it caused, in order.
\<close>

datatype event =
    AnalyzeInvoked js_file
  | CaptionInvoked jsval
  | Fetched request

subsection \<open>The component state\<close>

record app_state =
  imagePreview :: string
  imageFile :: "js_file option"
  caption :: jsval
  loading :: bool
  tone :: string

definition tones :: "(string \<times> string) list" where
  "tones = [(''witty'', ''Witty''), (''brutal'', ''Brutal''),
            (''sarcastic'', ''Sarcastic''), (''friendly'', ''Friendly'')]"

definition initial_state :: app_state where
  "initial_state = \<lparr>imagePreview = '''', imageFile = None, caption = JStr '''',
                     loading = False, tone = ''witty''\<rparr>"

subsection \<open>fileToBase64\<close>

definition fileToBase64 :: "env \<Rightarrow> js_file \<Rightarrow> js_error + string" where
  "fileToBase64 e f = readAsDataURL e f"

subsection \<open>Reading the reply\<close>

text \<open>
  \<open>data.choices?.[0]?.message?.content\<close>. The first read, \<open>data.choices\<close>, is a plain
  property read: it throws on \<open>null\<close>.
\<close>

definition choices_0_message_content :: "env \<Rightarrow> jsval \<Rightarrow> js_error + jsval" where
  "choices_0_message_content e data =
     (if nullish data then Inl (TypeError (nullReadMessage e ''choices''))
      else Inr (opt_member (opt_member (opt_first (get_member data ''choices'')) ''message'')
                  ''content''))"

subsection \<open>analyzeImageWithQwen\<close>

definition completions_url :: string where
  "completions_url = ''https://api.fireworks.ai/inference/v1/chat/completions''"

definition qwen_model :: string where
  "qwen_model = ''accounts/fireworks/models/qwen2p5-vl-32b-instruct''"

definition qwen_system_prompt :: string where
  "qwen_system_prompt =
     ''You are a visual captioning assistant. For the given image, summarize only the key subjects and salient objects or actions that define the main event or scene. Ignore minor background details. Keep description clear, concise, and focused on what stands out most.''"

definition qwen_fallback :: string where
  "qwen_fallback = ''A visually interesting image''"

definition request_headers :: "string \<Rightarrow> (string \<times> string) list" where
  "request_headers api_key =
     [(''Accept'', ''application/json''),
      (''Content-Type'', ''application/json''),
      (''Authorization'', ''Bearer '' @ api_key)]"

definition qwen_messages :: "string \<Rightarrow> message list" where
  "qwen_messages base64Image =
     [\<lparr>role = ''system'', content = JStr qwen_system_prompt\<rparr>,
      \<lparr>role = ''user'', content = JStr (''<image>'' @ base64Image)\<rparr>]"

definition qwen_payload :: "string \<Rightarrow> payload" where
  "qwen_payload base64Image =
     \<lparr>model = qwen_model, max_tokens = 4096, top_p = 1, top_k = 40,
      presence_penalty = 0, frequency_penalty = 0, temperature = 6 / 10,
      messages = qwen_messages base64Image\<rparr>"

definition qwen_request :: "string \<Rightarrow> string \<Rightarrow> request" where
  "qwen_request api_key base64Image =
     \<lparr>url = completions_url, http_method = ''POST'', headers = request_headers api_key,
      body = qwen_payload base64Image\<rparr>"

text \<open>The part of \<open>analyzeImageWithQwen\<close> after \<open>fetch\<close> has settled with a response.\<close>

definition qwen_read_response :: "env \<Rightarrow> response \<Rightarrow> js_error + jsval" where
  "qwen_read_response e resp =
     (if \<not> ok resp then
        (case text_result resp of
           Inl err \<Rightarrow> Inl err
         | Inr errorText \<Rightarrow> Inl (Error (''Qwen API error: '' @ errorText)))
      else
        (case json_result resp of
           Inl err \<Rightarrow> Inl err
         | Inr data \<Rightarrow>
             (case choices_0_message_content e data of
                Inl err \<Rightarrow> Inl err
              | Inr c \<Rightarrow> Inr (if truthy c then c else JStr qwen_fallback))))"

definition analyzeImageWithQwen :: "env \<Rightarrow> js_file \<Rightarrow> (js_error + jsval) \<times> event list" where
  "analyzeImageWithQwen e img =
     (case VITE_QWEN_KEY e of
        None \<Rightarrow> (Inl (Error ''Qwen API key is missing''), [AnalyzeInvoked img])
      | Some api_key \<Rightarrow>
          if api_key = [] then (Inl (Error ''Qwen API key is missing''), [AnalyzeInvoked img])
          else
            (case fileToBase64 e img of
               Inl err \<Rightarrow> (Inl err, [AnalyzeInvoked img])
             | Inr base64Image \<Rightarrow>
                 (let req = qwen_request api_key base64Image in
                  case fetch e req of
                    Inl err \<Rightarrow> (Inl err, [AnalyzeInvoked img, Fetched req])
                  | Inr resp \<Rightarrow>
                      (qwen_read_response e resp, [AnalyzeInvoked img, Fetched req]))))"

subsection \<open>generateCaptionWithDobby\<close>

definition dobby_model :: string where
  "dobby_model =
     ''accounts/sentientfoundation-serverless/models/dobby-mini-unhinged-plus-llama-3-1-8b''"

definition dobby_fallback :: string where
  "dobby_fallback = ''No caption generated.''"

text \<open>The template literal, with its leading and trailing line breaks.\<close>

definition systemPrompt :: "string \<Rightarrow> string" where
  "systemPrompt t =
     [CHR 0x0A] @ ''You are CaptionDobby. Given a visual scene description, create a '' @ t
     @ '', meme-worthy caption in 25 words or less.'' @ [CHR 0x0A]
     @ ''Make it clever and instantly shareable.'' @ [CHR 0x0A]"

definition dobby_messages :: "string \<Rightarrow> jsval \<Rightarrow> message list" where
  "dobby_messages t description =
     [\<lparr>role = ''system'', content = JStr (systemPrompt t)\<rparr>,
      \<lparr>role = ''user'', content = description\<rparr>]"

definition dobby_payload :: "string \<Rightarrow> jsval \<Rightarrow> payload" where
  "dobby_payload t description =
     \<lparr>model = dobby_model, max_tokens = 4096, top_p = 1, top_k = 40,
      presence_penalty = 0, frequency_penalty = 0, temperature = 6 / 10,
      messages = dobby_messages t description\<rparr>"

definition dobby_request :: "string \<Rightarrow> string \<Rightarrow> jsval \<Rightarrow> request" where
  "dobby_request api_key t description =
     \<lparr>url = completions_url, http_method = ''POST'', headers = request_headers api_key,
      body = dobby_payload t description\<rparr>"

text \<open>The part of \<open>generateCaptionWithDobby\<close> after \<open>fetch\<close> has settled with a response.\<close>

definition dobby_read_response :: "env \<Rightarrow> response \<Rightarrow> js_error + jsval" where
  "dobby_read_response e resp =
     (if \<not> ok resp then Inl (Error (''Dobby API error: '' @ statusText resp))
      else
        (case json_result resp of
           Inl err \<Rightarrow> Inl err
         | Inr data \<Rightarrow>
             (case choices_0_message_content e data of
                Inl err \<Rightarrow> Inl err
              | Inr c \<Rightarrow> Inr (if nullish c then JStr dobby_fallback else c))))"

text \<open>The tone is the state variable \<open>tone\<close> that the closure reads.\<close>

definition generateCaptionWithDobby ::
  "env \<Rightarrow> string \<Rightarrow> jsval \<Rightarrow> (js_error + jsval) \<times> event list" where
  "generateCaptionWithDobby e t description =
     (case VITE_DOBBY_KEY e of
        None \<Rightarrow> (Inl (Error ''Dobby API key is missing''), [CaptionInvoked description])
      | Some api_key \<Rightarrow>
          if api_key = [] then
            (Inl (Error ''Dobby API key is missing''), [CaptionInvoked description])
          else
            (let req = dobby_request api_key t description in
             case fetch e req of
               Inl err \<Rightarrow> (Inl err, [CaptionInvoked description, Fetched req])
             | Inr resp \<Rightarrow>
                 (dobby_read_response e resp, [CaptionInvoked description, Fetched req])))"

subsection \<open>handleGenerate\<close>

text \<open>The body of the \<open>try\<close> block: the value it would pass to \<open>setCaption\<close>, or what it threw.\<close>

definition try_block :: "env \<Rightarrow> string \<Rightarrow> js_file \<Rightarrow> (js_error + jsval) \<times> event list" where
  "try_block e t img =
     (case analyzeImageWithQwen e img of
        (Inl err, evs) \<Rightarrow> (Inl err, evs)
      | (Inr description, evs) \<Rightarrow>
          (case generateCaptionWithDobby e t description of
             (r, evs') \<Rightarrow> (r, evs @ evs')))"

text \<open>The state while the run is in flight: \<open>setLoading(true); setCaption("")\<close>.\<close>

definition run_started :: "app_state \<Rightarrow> app_state" where
  "run_started st = st\<lparr>loading := True, caption := JStr ''''\<rparr>"

definition handleGenerate :: "env \<Rightarrow> app_state \<Rightarrow> app_state \<times> event list" where
  "handleGenerate e st =
     (case imageFile st of
        None \<Rightarrow> (st, [])
      | Some img \<Rightarrow>
          (case try_block e (tone st) img of
             (Inr c, evs) \<Rightarrow> ((run_started st)\<lparr>caption := c, loading := False\<rparr>, evs)
           | (Inl err, evs) \<Rightarrow>
               ((run_started st)\<lparr>caption := JStr (''Error: '' @ message_text err),
                                 loading := False\<rparr>, evs)))"

subsection \<open>Reading a trace\<close>

text \<open>
  An event of the caption stage: the caption client being entered, or a request for the
  caption model.
\<close>

fun caption_stage_event :: "event \<Rightarrow> bool" where
  "caption_stage_event (CaptionInvoked d) = True"
| "caption_stage_event (Fetched req) = (model (body req) = dobby_model)"
| "caption_stage_event (AnalyzeInvoked f) = False"

subsection \<open>Comparing runs that differ in the tone\<close>

text \<open>
  A request with the content of its system message blanked, and a trace in which every
  request for the caption model is so blanked: what is left of a run when the caption
  client's system instruction is not looked at.
\<close>

definition erase_system_content :: "request \<Rightarrow> request" where
  "erase_system_content req =
     req\<lparr>body := (body req)\<lparr>messages :=
       map (\<lambda>m. if role m = ''system'' then m\<lparr>content := JUndefined\<rparr> else m)
           (messages (body req))\<rparr>\<rparr>"

fun erase_tone :: "event \<Rightarrow> event" where
  "erase_tone (Fetched req) =
     (if model (body req) = dobby_model then Fetched (erase_system_content req)
      else Fetched req)"
| "erase_tone ev = ev"

subsection \<open>Sample surroundings\<close>

text \<open>
  Concrete files, replies and surroundings on which the properties below are run. A
  successful reply is given by the value its body parses to (its text is never read); a
  failed one by its status text and body text.
\<close>

definition sample_file :: js_file where
  "sample_file = \<lparr>file_type = ''image/png'', file_bytes = ''abc''\<rparr>"

definition sample_state :: app_state where
  "sample_state = initial_state\<lparr>imagePreview := ''blob:1'', imageFile := Some sample_file\<rparr>"

definition json_reply :: "jsval \<Rightarrow> response" where
  "json_reply data =
     \<lparr>ok = True, statusText = ''OK'', text_result = Inr [], json_result = Inr data\<rparr>"

definition error_reply :: "string \<Rightarrow> string \<Rightarrow> response" where
  "error_reply status txt =
     \<lparr>ok = False, statusText = status, text_result = Inr txt,
      json_result = Inl (Rejected (Some ''Unexpected token''))\<rparr>"

definition completion :: "jsval \<Rightarrow> jsval" where
  "completion c = JObj [(''choices'', JArr [JObj [(''message'', JObj [(''content'', c)])]])]"

definition sample_env ::
  "string option \<Rightarrow> string option \<Rightarrow> response \<Rightarrow> response \<Rightarrow> env" where
  "sample_env qwen_key dobby_key qwen_reply dobby_reply =
     \<lparr>VITE_QWEN_KEY = qwen_key, VITE_DOBBY_KEY = dobby_key,
      readAsDataURL = (\<lambda>f. Inr ''data:image/png;base64,YWJj''),
      fetch = (\<lambda>req. if model (body req) = qwen_model then Inr qwen_reply else Inr dobby_reply),
      nullReadMessage = (\<lambda>p. ''Cannot read properties of null (reading '' @ [CHR 0x27] @ p
                           @ [CHR 0x27] @ '')'')\<rparr>"

definition described :: response where
  "described = json_reply (completion (JStr ''A cat on a sofa''))"

definition captioned :: response where
  "captioned = json_reply (completion (JStr ''So majestic.''))"

text \<open>Both keys set, both services answering.\<close>

definition env_ok :: env where
  "env_ok = sample_env (Some ''q'') (Some ''d'') described captioned"

text \<open>The description service refuses the key.\<close>

definition env_qwen_refused :: env where
  "env_qwen_refused =
     sample_env (Some ''q'') (Some ''d'') (error_reply ''Unauthorized'' ''invalid key'') captioned"

text \<open>Both services refuse.\<close>

definition env_both_refused :: env where
  "env_both_refused =
     sample_env (Some ''q'') (Some ''d'') (error_reply ''Unauthorized'' ''invalid key'')
       (error_reply ''Too Many Requests'' ''slow down'')"

text \<open>The caption key is not configured.\<close>

definition env_no_dobby_key :: env where
  "env_no_dobby_key = sample_env (Some ''q'') None described captioned"

text \<open>Either service answers with an empty text.\<close>

definition env_empty_content :: env where
  "env_empty_content =
     sample_env (Some ''q'') (Some ''d'') (json_reply (completion (JStr [])))
       (json_reply (completion (JStr [])))"

text \<open>The description service, then the caption service, answers 200 with the body \<open>null\<close>.\<close>

definition env_qwen_null :: env where
  "env_qwen_null = sample_env (Some ''q'') (Some ''d'') (json_reply JNull) captioned"

definition env_dobby_null :: env where
  "env_dobby_null = sample_env (Some ''q'') (Some ''d'') described (json_reply JNull)"

section \<open>Properties\<close>

subsection \<open>The two clients, case by case\<close>

lemma qwen_model_neq_dobby_model: "qwen_model \<noteq> dobby_model"
  by (simp add: qwen_model_def dobby_model_def)

lemma analyzeImageWithQwen_no_key:
  "VITE_QWEN_KEY e = None \<or> VITE_QWEN_KEY e = Some [] \<Longrightarrow>
   analyzeImageWithQwen e img = (Inl (Error ''Qwen API key is missing''), [AnalyzeInvoked img])"
  by (auto simp add: analyzeImageWithQwen_def)

lemma analyzeImageWithQwen_fetched:
  "VITE_QWEN_KEY e = Some k \<Longrightarrow> k \<noteq> [] \<Longrightarrow> readAsDataURL e img = Inr b \<Longrightarrow>
   fetch e (qwen_request k b) = Inr resp \<Longrightarrow>
   analyzeImageWithQwen e img =
     (qwen_read_response e resp, [AnalyzeInvoked img, Fetched (qwen_request k b)])"
  by (simp add: analyzeImageWithQwen_def fileToBase64_def)

lemma generateCaptionWithDobby_no_key:
  "VITE_DOBBY_KEY e = None \<or> VITE_DOBBY_KEY e = Some [] \<Longrightarrow>
   generateCaptionWithDobby e t d = (Inl (Error ''Dobby API key is missing''), [CaptionInvoked d])"
  by (auto simp add: generateCaptionWithDobby_def)

lemma generateCaptionWithDobby_fetched:
  "VITE_DOBBY_KEY e = Some k \<Longrightarrow> k \<noteq> [] \<Longrightarrow>
   fetch e (dobby_request k t d) = Inr resp \<Longrightarrow>
   generateCaptionWithDobby e t d =
     (dobby_read_response e resp, [CaptionInvoked d, Fetched (dobby_request k t d)])"
  by (simp add: generateCaptionWithDobby_def)

text \<open>The events of the description client: it is entered, and sends at most one request.\<close>

lemma analyzeImageWithQwen_events:
  "snd (analyzeImageWithQwen e img) = [AnalyzeInvoked img] \<or>
   (\<exists>k b. snd (analyzeImageWithQwen e img) = [AnalyzeInvoked img, Fetched (qwen_request k b)])"
  by (auto simp add: analyzeImageWithQwen_def Let_def split: option.splits sum.splits)

lemma analyzeImageWithQwen_no_caption_event:
  "filter caption_stage_event (snd (analyzeImageWithQwen e img)) = []"
  using analyzeImageWithQwen_events [of e img] qwen_model_neq_dobby_model
  by (auto simp add: qwen_request_def qwen_payload_def)

lemma generateCaptionWithDobby_events:
  "snd (generateCaptionWithDobby e t d) = [CaptionInvoked d] \<or>
   (\<exists>k. VITE_DOBBY_KEY e = Some k \<and> k \<noteq> [] \<and>
      snd (generateCaptionWithDobby e t d) = [CaptionInvoked d, Fetched (dobby_request k t d)])"
  by (auto simp add: generateCaptionWithDobby_def Let_def split: option.splits sum.splits)

lemma generateCaptionWithDobby_all_caption_events:
  "filter (\<lambda>ev. \<not> caption_stage_event ev) (snd (generateCaptionWithDobby e t d)) = []"
  using generateCaptionWithDobby_events [of e t d]
  by (auto simp add: dobby_request_def dobby_payload_def)

subsection \<open>The try block and the handler\<close>

lemma try_block_Inl:
  "fst (analyzeImageWithQwen e img) = Inl err \<Longrightarrow>
   try_block e t img = (Inl err, snd (analyzeImageWithQwen e img))"
  by (cases "analyzeImageWithQwen e img") (simp add: try_block_def)

lemma try_block_Inr:
  "analyzeImageWithQwen e img = (Inr d, evs) \<Longrightarrow>
   try_block e t img =
     (fst (generateCaptionWithDobby e t d), evs @ snd (generateCaptionWithDobby e t d))"
  by (cases "generateCaptionWithDobby e t d") (simp add: try_block_def)

lemma try_block_events:
  "snd (try_block e t img) =
     (case fst (analyzeImageWithQwen e img) of
        Inl err \<Rightarrow> snd (analyzeImageWithQwen e img)
      | Inr d \<Rightarrow> snd (analyzeImageWithQwen e img) @ snd (generateCaptionWithDobby e t d))"
  by (cases "analyzeImageWithQwen e img")
     (auto simp add: try_block_def split: sum.splits prod.splits)

lemma handleGenerate_Some:
  "imageFile st = Some img \<Longrightarrow>
   handleGenerate e st =
     (case fst (try_block e (tone st) img) of
        Inr c \<Rightarrow> st\<lparr>caption := c, loading := False\<rparr>
      | Inl err \<Rightarrow> st\<lparr>caption := JStr (''Error: '' @ message_text err), loading := False\<rparr>,
      snd (try_block e (tone st) img))"
  by (cases "try_block e (tone st) img")
     (auto simp add: handleGenerate_def run_started_def split: sum.splits)

subsection \<open>Reading a reply\<close>

lemma content_of_completion: "choices_0_message_content e (completion c) = Inr c"
  by (simp add: choices_0_message_content_def completion_def opt_member_def opt_first_def)

lemma content_of_null:
  "choices_0_message_content e JNull = Inl (TypeError (nullReadMessage e ''choices''))"
  by (simp add: choices_0_message_content_def)

text \<open>
  Where the read of the content yields \<open>undefined\<close>, each client puts its fixed text in
  its place, and after the description client the caption client is entered with it.
\<close>

lemma analyzeImageWithQwen_fallback:
  assumes "VITE_QWEN_KEY e = Some k" and "k \<noteq> []" and "readAsDataURL e img = Inr b"
    and "fetch e (qwen_request k b) = Inr resp"
    and "ok resp" and "json_result resp = Inr data"
    and "choices_0_message_content e data = Inr JUndefined"
  shows "analyzeImageWithQwen e img =
           (Inr (JStr qwen_fallback), [AnalyzeInvoked img, Fetched (qwen_request k b)])"
    and "snd (try_block e t img) =
           [AnalyzeInvoked img, Fetched (qwen_request k b)]
           @ snd (generateCaptionWithDobby e t (JStr qwen_fallback))"
proof -
  show a: "analyzeImageWithQwen e img =
      (Inr (JStr qwen_fallback), [AnalyzeInvoked img, Fetched (qwen_request k b)])"
    using assms by (simp add: analyzeImageWithQwen_fetched qwen_read_response_def)
  show "snd (try_block e t img) =
      [AnalyzeInvoked img, Fetched (qwen_request k b)]
      @ snd (generateCaptionWithDobby e t (JStr qwen_fallback))"
    by (simp add: try_block_Inr [OF a])
qed

lemma generateCaptionWithDobby_fallback:
  assumes "VITE_DOBBY_KEY e = Some k" and "k \<noteq> []"
    and "fetch e (dobby_request k t d) = Inr resp"
    and "ok resp" and "json_result resp = Inr data"
    and "choices_0_message_content e data = Inr JUndefined"
  shows "fst (generateCaptionWithDobby e t d) = Inr (JStr dobby_fallback)"
  using assms by (simp add: generateCaptionWithDobby_fetched dobby_read_response_def)

subsection \<open>The sample surroundings, evaluated\<close>

lemma sample_env_simps:
  "VITE_QWEN_KEY (sample_env qk dk qr dr) = qk"
  "VITE_DOBBY_KEY (sample_env qk dk qr dr) = dk"
  "readAsDataURL (sample_env qk dk qr dr) f = Inr ''data:image/png;base64,YWJj''"
  "fetch (sample_env qk dk qr dr) (qwen_request k b) = Inr qr"
  "fetch (sample_env qk dk qr dr) (dobby_request k t d) = Inr dr"
  "nullReadMessage (sample_env qk dk qr dr) ''choices'' =
     ''Cannot read properties of null (reading '' @ [CHR 0x27] @ ''choices'' @ [CHR 0x27] @ '')''"
  using qwen_model_neq_dobby_model
  by (simp_all add: sample_env_def qwen_request_def qwen_payload_def dobby_request_def
      dobby_payload_def)

lemma sample_state_simps:
  "imageFile sample_state = Some sample_file"
  "tone sample_state = ''witty''"
  by (simp_all add: sample_state_def initial_state_def)

lemma reply_simps:
  "ok (json_reply data) = True"
  "json_result (json_reply data) = Inr data"
  "ok (error_reply st tx) = False"
  "statusText (error_reply st tx) = st"
  "text_result (error_reply st tx) = Inr tx"
  by (simp_all add: json_reply_def error_reply_def)

lemma sample_analyze:
  "analyzeImageWithQwen (sample_env (Some ''q'') dk qr dr) sample_file =
     (qwen_read_response (sample_env (Some ''q'') dk qr dr) qr,
      [AnalyzeInvoked sample_file, Fetched (qwen_request ''q'' ''data:image/png;base64,YWJj'')])"
  by (rule analyzeImageWithQwen_fetched) (simp_all add: sample_env_simps)

lemma sample_caption:
  "generateCaptionWithDobby (sample_env qk (Some ''d'') qr dr) t d =
     (dobby_read_response (sample_env qk (Some ''d'') qr dr) dr,
      [CaptionInvoked d, Fetched (dobby_request ''d'' t d)])"
  by (rule generateCaptionWithDobby_fetched) (simp_all add: sample_env_simps)

lemma sample_described:
  "analyzeImageWithQwen (sample_env (Some ''q'') dk described dr) sample_file =
     (Inr (JStr ''A cat on a sofa''),
      [AnalyzeInvoked sample_file, Fetched (qwen_request ''q'' ''data:image/png;base64,YWJj'')])"
  by (simp add: sample_analyze qwen_read_response_def described_def reply_simps
      content_of_completion)

text \<open>
  The whole pipeline once, for any tone: description \<open>A cat on a sofa\<close>, caption
  \<open>So majestic.\<close>; each client is entered once and sends one request.
\<close>

lemma sample_run:
  "handleGenerate env_ok (sample_state\<lparr>tone := t\<rparr>) =
     (sample_state\<lparr>tone := t, caption := JStr ''So majestic.'', loading := False\<rparr>,
      [AnalyzeInvoked sample_file, Fetched (qwen_request ''q'' ''data:image/png;base64,YWJj''),
       CaptionInvoked (JStr ''A cat on a sofa''),
       Fetched (dobby_request ''d'' t (JStr ''A cat on a sofa''))])"
proof -
  have img: "imageFile (sample_state\<lparr>tone := t\<rparr>) = Some sample_file"
    by (simp add: sample_state_simps)
  have cap: "generateCaptionWithDobby env_ok t (JStr ''A cat on a sofa'') =
      (Inr (JStr ''So majestic.''),
       [CaptionInvoked (JStr ''A cat on a sofa''),
        Fetched (dobby_request ''d'' t (JStr ''A cat on a sofa''))])"
    by (simp add: env_ok_def sample_caption dobby_read_response_def captioned_def reply_simps
        content_of_completion)
  have "try_block env_ok t sample_file =
      (Inr (JStr ''So majestic.''),
       [AnalyzeInvoked sample_file, Fetched (qwen_request ''q'' ''data:image/png;base64,YWJj''),
        CaptionInvoked (JStr ''A cat on a sofa''),
        Fetched (dobby_request ''d'' t (JStr ''A cat on a sofa''))])"
    using try_block_Inr [OF sample_described [of "Some ''d''" captioned], of t]
    by (simp add: env_ok_def [symmetric] cap)
  then show ?thesis
    by (simp add: handleGenerate_Some [OF img])
qed

subsection \<open>The tone in the caption request\<close>

lemma erase_system_content_dobby_request:
  "erase_system_content (dobby_request k t1 d) = erase_system_content (dobby_request k t2 d)"
  by (simp add: erase_system_content_def dobby_request_def dobby_payload_def dobby_messages_def)

lemma generateCaptionWithDobby_erase_tone:
  "map erase_tone (snd (generateCaptionWithDobby e t1 d)) =
   map erase_tone (snd (generateCaptionWithDobby e t2 d))"
proof (cases "VITE_DOBBY_KEY e = None \<or> VITE_DOBBY_KEY e = Some []")
  case True
  then show ?thesis by (simp add: generateCaptionWithDobby_no_key)
next
  case False
  then obtain k where k: "VITE_DOBBY_KEY e = Some k" "k \<noteq> []" by auto
  have "snd (generateCaptionWithDobby e t d) = [CaptionInvoked d, Fetched (dobby_request k t d)]"
    for t
    using k by (simp add: generateCaptionWithDobby_def Let_def split: sum.splits)
  moreover have "model (body (dobby_request k t d)) = dobby_model" for t
    by (simp add: dobby_request_def dobby_payload_def)
  ultimately show ?thesis
    using erase_system_content_dobby_request [of k t1 d t2] by simp
qed

subsection \<open>What is handed to fetch\<close>

text \<open>
  The sampling parameters of the two request builders, the requests a client or a run
  can leave in its trace, and the request each client sends once its key is set.
\<close>

lemma qwen_request_sampling:
  "(temperature (body (qwen_request k b)), top_p (body (qwen_request k b)),
    top_k (body (qwen_request k b)), presence_penalty (body (qwen_request k b)),
    frequency_penalty (body (qwen_request k b)), max_tokens (body (qwen_request k b))) =
   (6 / 10, 1, 40, 0, 0, 4096)"
  by (simp add: qwen_request_def qwen_payload_def)

lemma dobby_request_sampling:
  "(temperature (body (dobby_request k t d)), top_p (body (dobby_request k t d)),
    top_k (body (dobby_request k t d)), presence_penalty (body (dobby_request k t d)),
    frequency_penalty (body (dobby_request k t d)), max_tokens (body (dobby_request k t d))) =
   (6 / 10, 1, 40, 0, 0, 4096)"
  by (simp add: dobby_request_def dobby_payload_def)

lemma analyzeImageWithQwen_fetches:
  "Fetched req \<in> set (snd (analyzeImageWithQwen e img)) \<Longrightarrow> \<exists>k b. req = qwen_request k b"
  using analyzeImageWithQwen_events [of e img] by (elim disjE exE) (simp, simp, blast)

lemma generateCaptionWithDobby_fetches:
  "Fetched req \<in> set (snd (generateCaptionWithDobby e t d)) \<Longrightarrow> \<exists>k. req = dobby_request k t d"
  using generateCaptionWithDobby_events [of e t d] by (elim disjE exE conjE) (simp, simp, blast)

lemma handleGenerate_fetches:
  assumes "Fetched req \<in> set (snd (handleGenerate e st))"
  shows "(\<exists>k b. req = qwen_request k b) \<or> (\<exists>k d. req = dobby_request k (tone st) d)"
proof (cases "imageFile st")
  case None
  with assms show ?thesis by (simp add: handleGenerate_def)
next
  case (Some img)
  then have "Fetched req \<in> set (snd (try_block e (tone st) img))"
    using assms by (simp add: handleGenerate_Some)
  then have "Fetched req \<in> set (snd (analyzeImageWithQwen e img)) \<or>
      (\<exists>d. Fetched req \<in> set (snd (generateCaptionWithDobby e (tone st) d)))"
    by (auto simp add: try_block_events split: sum.splits)
  then show ?thesis
    using analyzeImageWithQwen_fetches generateCaptionWithDobby_fetches by blast
qed

lemma analyzeImageWithQwen_sends:
  "VITE_QWEN_KEY e = Some k \<Longrightarrow> k \<noteq> [] \<Longrightarrow> readAsDataURL e img = Inr b \<Longrightarrow>
   snd (analyzeImageWithQwen e img) = [AnalyzeInvoked img, Fetched (qwen_request k b)]"
  by (simp add: analyzeImageWithQwen_def fileToBase64_def Let_def split: sum.splits)

lemma generateCaptionWithDobby_sends:
  "VITE_DOBBY_KEY e = Some k \<Longrightarrow> k \<noteq> [] \<Longrightarrow>
   snd (generateCaptionWithDobby e t d) = [CaptionInvoked d, Fetched (dobby_request k t d)]"
  by (simp add: generateCaptionWithDobby_def Let_def split: sum.splits)

section \<open>The claims\<close>

text \<open>
  C1. When the description stage fails hard (its key is absent or empty, or the
  description endpoint answers with a status that is not ok), the run's trace has no
  caption-stage event: the caption client is not entered and no request for the caption
  model is sent. The try block ends in a throw, the caption shown is \<open>Error: \<close> followed
  by the thrown message, and loading is false.
\<close>

theorem description_failure_skips_caption:
  assumes "imageFile st = Some img"
    and "VITE_QWEN_KEY e = None \<or> VITE_QWEN_KEY e = Some [] \<or>
         (\<exists>k b resp. VITE_QWEN_KEY e = Some k \<and> k \<noteq> [] \<and> readAsDataURL e img = Inr b \<and>
            fetch e (qwen_request k b) = Inr resp \<and> \<not> ok resp)"
  shows "filter caption_stage_event (snd (handleGenerate e st)) = [] \<and>
         loading (fst (handleGenerate e st)) = False \<and>
         (\<exists>err. fst (try_block e (tone st) img) = Inl err \<and>
            caption (fst (handleGenerate e st)) = JStr (''Error: '' @ message_text err))"
proof -
  have "\<exists>err. fst (analyzeImageWithQwen e img) = Inl err"
    using assms(2)
  proof (elim disjE exE conjE)
    assume "VITE_QWEN_KEY e = None"
    then show ?thesis by (simp add: analyzeImageWithQwen_no_key)
  next
    assume "VITE_QWEN_KEY e = Some []"
    then show ?thesis by (simp add: analyzeImageWithQwen_no_key)
  next
    fix k b resp
    assume "VITE_QWEN_KEY e = Some k" "k \<noteq> []" "readAsDataURL e img = Inr b"
      "fetch e (qwen_request k b) = Inr resp" "\<not> ok resp"
    then show ?thesis
      by (simp add: analyzeImageWithQwen_fetched qwen_read_response_def split: sum.splits)
  qed
  then obtain err where err: "fst (analyzeImageWithQwen e img) = Inl err" ..
  have tb: "try_block e (tone st) img = (Inl err, snd (analyzeImageWithQwen e img))"
    using err by (rule try_block_Inl)
  have hg: "handleGenerate e st =
      (st\<lparr>caption := JStr (''Error: '' @ message_text err), loading := False\<rparr>,
       snd (analyzeImageWithQwen e img))"
    using assms(1) tb by (simp add: handleGenerate_Some)
  show ?thesis
    using hg tb analyzeImageWithQwen_no_caption_event [of e img] by simp
qed

theorem description_failure_skips_caption_witness:
  "imageFile sample_state = Some sample_file \<and>
   (\<exists>k b resp. VITE_QWEN_KEY env_qwen_refused = Some k \<and> k \<noteq> [] \<and>
      readAsDataURL env_qwen_refused sample_file = Inr b \<and>
      fetch env_qwen_refused (qwen_request k b) = Inr resp \<and> \<not> ok resp) \<and>
   filter caption_stage_event (snd (handleGenerate env_qwen_refused sample_state)) = [] \<and>
   loading (fst (handleGenerate env_qwen_refused sample_state)) = False \<and>
   (\<exists>err. fst (try_block env_qwen_refused (tone sample_state) sample_file) = Inl err \<and>
      caption (fst (handleGenerate env_qwen_refused sample_state)) =
        JStr (''Error: '' @ message_text err))"
proof -
  have h1: "imageFile sample_state = Some sample_file"
    by (simp add: sample_state_simps)
  have h2: "\<exists>k b resp. VITE_QWEN_KEY env_qwen_refused = Some k \<and> k \<noteq> [] \<and>
      readAsDataURL env_qwen_refused sample_file = Inr b \<and>
      fetch env_qwen_refused (qwen_request k b) = Inr resp \<and> \<not> ok resp"
    by (intro exI [of _ "''q''"] exI [of _ "''data:image/png;base64,YWJj''"]
        exI [of _ "error_reply ''Unauthorized'' ''invalid key''"])
       (simp add: env_qwen_refused_def sample_env_simps reply_simps)
  from h2 have h3: "VITE_QWEN_KEY env_qwen_refused = None \<or>
      VITE_QWEN_KEY env_qwen_refused = Some [] \<or>
      (\<exists>k b resp. VITE_QWEN_KEY env_qwen_refused = Some k \<and> k \<noteq> [] \<and>
         readAsDataURL env_qwen_refused sample_file = Inr b \<and>
         fetch env_qwen_refused (qwen_request k b) = Inr resp \<and> \<not> ok resp)"
    by blast
  show ?thesis
    using h1 h2 description_failure_skips_caption [OF h1 h3] by blast
qed

text \<open>
  C2. A run started with an image selected ends with loading false and with exactly one
  of two outcomes: the try block returned a caption and that caption is shown, or the try
  block threw and \<open>Error: \<close> followed by the thrown message is shown.
\<close>

theorem run_reaches_one_terminal_state:
  assumes "imageFile st = Some img"
  shows "loading (fst (handleGenerate e st)) = False \<and>
         ((\<exists>c. fst (try_block e (tone st) img) = Inr c \<and> caption (fst (handleGenerate e st)) = c)
          \<noteq> (\<exists>err. fst (try_block e (tone st) img) = Inl err \<and>
                 caption (fst (handleGenerate e st)) = JStr (''Error: '' @ message_text err)))"
  using assms by (cases "fst (try_block e (tone st) img)") (simp_all add: handleGenerate_Some)

theorem run_reaches_one_terminal_state_witness:
  "imageFile sample_state = Some sample_file \<and>
   loading (fst (handleGenerate env_ok sample_state)) = False \<and>
   ((\<exists>c. fst (try_block env_ok (tone sample_state) sample_file) = Inr c \<and>
          caption (fst (handleGenerate env_ok sample_state)) = c)
    \<noteq> (\<exists>err. fst (try_block env_ok (tone sample_state) sample_file) = Inl err \<and>
           caption (fst (handleGenerate env_ok sample_state)) =
             JStr (''Error: '' @ message_text err)))"
proof -
  have h: "imageFile sample_state = Some sample_file"
    by (simp add: sample_state_simps)
  show ?thesis
    using h run_reaches_one_terminal_state [OF h, of env_ok] by blast
qed

text \<open>
  C3. The description endpoint answers 200 with the JSON body \<open>null\<close>: the content field
  is absent, yet the description client throws on reading \<open>data.choices\<close>, the caption
  client is never entered and the run ends with an error text instead of going on with
  the fallback description.
\<close>

theorem null_description_body_fails:
  "handleGenerate env_qwen_null sample_state =
     (sample_state\<lparr>caption := JStr (''Error: Cannot read properties of null (reading ''
          @ [CHR 0x27] @ ''choices'' @ [CHR 0x27] @ '')''), loading := False\<rparr>,
      [AnalyzeInvoked sample_file, Fetched (qwen_request ''q'' ''data:image/png;base64,YWJj'')])"
  by (simp add: env_qwen_null_def handleGenerate_Some sample_state_simps try_block_def
      sample_analyze qwen_read_response_def reply_simps content_of_null sample_env_simps)

text \<open>
  C4. The caption endpoint answers 200 with the JSON body \<open>null\<close>: the content field is
  absent, yet the caption client throws on reading \<open>data.choices\<close> and the run ends with
  an error text instead of the fallback caption.
\<close>

theorem null_caption_body_fails:
  "handleGenerate env_dobby_null sample_state =
     (sample_state\<lparr>caption := JStr (''Error: Cannot read properties of null (reading ''
          @ [CHR 0x27] @ ''choices'' @ [CHR 0x27] @ '')''), loading := False\<rparr>,
      [AnalyzeInvoked sample_file, Fetched (qwen_request ''q'' ''data:image/png;base64,YWJj''),
       CaptionInvoked (JStr ''A cat on a sofa''),
       Fetched (dobby_request ''d'' ''witty'' (JStr ''A cat on a sofa''))])"
  by (simp add: env_dobby_null_def handleGenerate_Some sample_state_simps try_block_def
      sample_described sample_caption dobby_read_response_def reply_simps content_of_null
      sample_env_simps)

text \<open>
  C5. With an image selected and the description client returning a description, an
  absent (or empty) caption key makes the caption client throw
  \<open>Dobby API key is missing\<close> without sending a request; the run ends with the caption
  \<open>Error: Dobby API key is missing\<close> and loading false.
\<close>

theorem missing_dobby_key:
  assumes "imageFile st = Some img"
    and "analyzeImageWithQwen e img = (Inr d, evs)"
    and "VITE_DOBBY_KEY e = None \<or> VITE_DOBBY_KEY e = Some []"
  shows "generateCaptionWithDobby e (tone st) d =
           (Inl (Error ''Dobby API key is missing''), [CaptionInvoked d]) \<and>
         handleGenerate e st =
           (st\<lparr>caption := JStr ''Error: Dobby API key is missing'', loading := False\<rparr>,
            evs @ [CaptionInvoked d])"
  using assms
  by (simp add: handleGenerate_Some try_block_Inr generateCaptionWithDobby_no_key)

theorem missing_dobby_key_witness:
  "imageFile sample_state = Some sample_file \<and>
   analyzeImageWithQwen env_no_dobby_key sample_file =
     (Inr (JStr ''A cat on a sofa''),
      [AnalyzeInvoked sample_file, Fetched (qwen_request ''q'' ''data:image/png;base64,YWJj'')]) \<and>
   VITE_DOBBY_KEY env_no_dobby_key = None \<and>
   generateCaptionWithDobby env_no_dobby_key (tone sample_state) (JStr ''A cat on a sofa'') =
     (Inl (Error ''Dobby API key is missing''), [CaptionInvoked (JStr ''A cat on a sofa'')]) \<and>
   handleGenerate env_no_dobby_key sample_state =
     (sample_state\<lparr>caption := JStr ''Error: Dobby API key is missing'', loading := False\<rparr>,
      [AnalyzeInvoked sample_file, Fetched (qwen_request ''q'' ''data:image/png;base64,YWJj'')]
      @ [CaptionInvoked (JStr ''A cat on a sofa'')])"
proof -
  have h1: "imageFile sample_state = Some sample_file"
    by (simp add: sample_state_simps)
  have h2: "analyzeImageWithQwen env_no_dobby_key sample_file =
     (Inr (JStr ''A cat on a sofa''),
      [AnalyzeInvoked sample_file, Fetched (qwen_request ''q'' ''data:image/png;base64,YWJj'')])"
    by (simp add: env_no_dobby_key_def sample_described)
  have h3: "VITE_DOBBY_KEY env_no_dobby_key = None"
    by (simp add: env_no_dobby_key_def sample_env_simps)
  have h3': "VITE_DOBBY_KEY env_no_dobby_key = None \<or> VITE_DOBBY_KEY env_no_dobby_key = Some []"
    using h3 by simp
  show ?thesis
    using h1 h2 h3 missing_dobby_key [OF h1 h2 h3'] by blast
qed

text \<open>
  C6. Two runs that differ only in the tone leave the same trace once the content of the
  system message of each caption request is blanked; and their events outside the caption
  stage, the description request among them, are the same as they stand.
\<close>

theorem tone_reaches_only_the_caption_system_message:
  "map erase_tone (snd (handleGenerate e (st\<lparr>tone := t1\<rparr>))) =
     map erase_tone (snd (handleGenerate e (st\<lparr>tone := t2\<rparr>))) \<and>
   filter (\<lambda>ev. \<not> caption_stage_event ev) (snd (handleGenerate e (st\<lparr>tone := t1\<rparr>))) =
     filter (\<lambda>ev. \<not> caption_stage_event ev) (snd (handleGenerate e (st\<lparr>tone := t2\<rparr>)))"
proof (cases "imageFile st")
  case None
  then show ?thesis by (simp add: handleGenerate_def)
next
  case (Some img)
  have hg: "snd (handleGenerate e (st\<lparr>tone := t\<rparr>)) = snd (try_block e t img)" for t
    using Some by (simp add: handleGenerate_Some)
  show ?thesis
  proof (cases "fst (analyzeImageWithQwen e img)")
    case (Inl err)
    then show ?thesis by (simp add: hg try_block_events)
  next
    case (Inr d)
    then show ?thesis
      using generateCaptionWithDobby_erase_tone [of e t1 d t2]
      by (simp add: hg try_block_events generateCaptionWithDobby_all_caption_events)
  qed
qed

theorem tone_reaches_only_the_caption_system_message_witness:
  "snd (handleGenerate env_ok (sample_state\<lparr>tone := ''witty''\<rparr>)) \<noteq>
     snd (handleGenerate env_ok (sample_state\<lparr>tone := ''brutal''\<rparr>)) \<and>
   map erase_tone (snd (handleGenerate env_ok (sample_state\<lparr>tone := ''witty''\<rparr>))) =
     map erase_tone (snd (handleGenerate env_ok (sample_state\<lparr>tone := ''brutal''\<rparr>))) \<and>
   filter (\<lambda>ev. \<not> caption_stage_event ev)
       (snd (handleGenerate env_ok (sample_state\<lparr>tone := ''witty''\<rparr>))) =
     filter (\<lambda>ev. \<not> caption_stage_event ev)
       (snd (handleGenerate env_ok (sample_state\<lparr>tone := ''brutal''\<rparr>)))"
proof -
  have "dobby_request ''d'' ''witty'' (JStr ''A cat on a sofa'') \<noteq>
      dobby_request ''d'' ''brutal'' (JStr ''A cat on a sofa'')"
    by (simp add: dobby_request_def dobby_payload_def dobby_messages_def systemPrompt_def)
  then have "snd (handleGenerate env_ok (sample_state\<lparr>tone := ''witty''\<rparr>)) \<noteq>
      snd (handleGenerate env_ok (sample_state\<lparr>tone := ''brutal''\<rparr>))"
    by (simp add: sample_run)
  then show ?thesis
    using tone_reaches_only_the_caption_system_message
      [where e = env_ok and st = sample_state and ?t1.0 = "''witty''" and ?t2.0 = "''brutal''"]
    by blast
qed

text \<open>
  C7. On a response that is not ok, the description client throws an error whose message
  is \<open>Qwen API error: \<close> followed by the body text of the response, and the caption
  client throws an error whose message is \<open>Dobby API error: \<close> followed by the status
  text of the response.
\<close>

theorem remote_service_error_message:
  "(VITE_QWEN_KEY e = Some k \<and> k \<noteq> [] \<and> readAsDataURL e img = Inr b \<and>
    fetch e (qwen_request k b) = Inr resp \<and> \<not> ok resp \<and> text_result resp = Inr errorText
    \<longrightarrow> fst (analyzeImageWithQwen e img) = Inl (Error (''Qwen API error: '' @ errorText))) \<and>
   (VITE_DOBBY_KEY e = Some k' \<and> k' \<noteq> [] \<and>
    fetch e (dobby_request k' t d) = Inr resp' \<and> \<not> ok resp'
    \<longrightarrow> fst (generateCaptionWithDobby e t d) =
          Inl (Error (''Dobby API error: '' @ statusText resp')))"
  by (simp add: analyzeImageWithQwen_fetched generateCaptionWithDobby_fetched
      qwen_read_response_def dobby_read_response_def)

theorem remote_service_error_message_witness:
  "fst (analyzeImageWithQwen env_both_refused sample_file) =
     Inl (Error ''Qwen API error: invalid key'') \<and>
   fst (generateCaptionWithDobby env_both_refused ''witty'' (JStr ''A cat on a sofa'')) =
     Inl (Error ''Dobby API error: Too Many Requests'')"
  using remote_service_error_message
    [where e = env_both_refused and k = "''q''" and img = sample_file
       and b = "''data:image/png;base64,YWJj''"
       and resp = "error_reply ''Unauthorized'' ''invalid key''"
       and errorText = "''invalid key''" and k' = "''d''" and t = "''witty''"
       and d = "JStr ''A cat on a sofa''"
       and resp' = "error_reply ''Too Many Requests'' ''slow down''"]
  by (simp add: env_both_refused_def sample_env_simps reply_simps)

text \<open>
  C8. Generating with no image selected does nothing: no client is entered, no request
  is sent, and the state (caption, loading, tone, image) is the one before.
\<close>

theorem handleGenerate_no_image:
  "imageFile st = None \<Longrightarrow> handleGenerate e st = (st, [])"
  by (simp add: handleGenerate_def)

theorem handleGenerate_no_image_witness:
  "imageFile initial_state = None \<and> handleGenerate env_ok initial_state = (initial_state, [])"
proof -
  have h: "imageFile initial_state = None"
    by (simp add: initial_state_def)
  show ?thesis
    using h handleGenerate_no_image [OF h, of env_ok] by blast
qed

text \<open>
  C9. Every request that the description client, the caption client or a whole run hands
  to \<open>fetch\<close> carries temperature 0.6, top_p 1, top_k 40, both penalties 0 and
  max_tokens 4096, whatever the surroundings, the image, the tone and the description.
  And each client does send such a request: the description client once its key is set
  and the file is read, the caption client once its key is set.
\<close>

theorem sampling_parameters_fixed:
  "(Fetched req \<in> set (snd (analyzeImageWithQwen e img)) \<or>
    Fetched req \<in> set (snd (generateCaptionWithDobby e t d)) \<or>
    Fetched req \<in> set (snd (handleGenerate e st))
    \<longrightarrow> (temperature (body req), top_p (body req), top_k (body req),
         presence_penalty (body req), frequency_penalty (body req), max_tokens (body req)) =
        (6 / 10, 1, 40, 0, 0, 4096)) \<and>
   (VITE_QWEN_KEY e = Some k \<and> k \<noteq> [] \<and> readAsDataURL e img = Inr b
    \<longrightarrow> (\<exists>sent. snd (analyzeImageWithQwen e img) = [AnalyzeInvoked img, Fetched sent] \<and>
          (temperature (body sent), top_p (body sent), top_k (body sent),
           presence_penalty (body sent), frequency_penalty (body sent), max_tokens (body sent)) =
          (6 / 10, 1, 40, 0, 0, 4096))) \<and>
   (VITE_DOBBY_KEY e = Some k' \<and> k' \<noteq> []
    \<longrightarrow> (\<exists>sent. snd (generateCaptionWithDobby e t d) = [CaptionInvoked d, Fetched sent] \<and>
          (temperature (body sent), top_p (body sent), top_k (body sent),
           presence_penalty (body sent), frequency_penalty (body sent), max_tokens (body sent)) =
          (6 / 10, 1, 40, 0, 0, 4096)))"
proof (intro conjI impI)
  assume "Fetched req \<in> set (snd (analyzeImageWithQwen e img)) \<or>
    Fetched req \<in> set (snd (generateCaptionWithDobby e t d)) \<or>
    Fetched req \<in> set (snd (handleGenerate e st))"
  then have "(\<exists>k b. req = qwen_request k b) \<or> (\<exists>k t d. req = dobby_request k t d)"
    using analyzeImageWithQwen_fetches [of req e img]
      generateCaptionWithDobby_fetches [of req e t d] handleGenerate_fetches [of req e st]
    by blast
  then show "(temperature (body req), top_p (body req), top_k (body req),
      presence_penalty (body req), frequency_penalty (body req), max_tokens (body req)) =
     (6 / 10, 1, 40, 0, 0, 4096)"
    using qwen_request_sampling dobby_request_sampling by auto
next
  assume "VITE_QWEN_KEY e = Some k \<and> k \<noteq> [] \<and> readAsDataURL e img = Inr b"
  then have "snd (analyzeImageWithQwen e img) = [AnalyzeInvoked img, Fetched (qwen_request k b)]"
    by (simp add: analyzeImageWithQwen_sends)
  then show "\<exists>sent. snd (analyzeImageWithQwen e img) = [AnalyzeInvoked img, Fetched sent] \<and>
      (temperature (body sent), top_p (body sent), top_k (body sent),
       presence_penalty (body sent), frequency_penalty (body sent), max_tokens (body sent)) =
      (6 / 10, 1, 40, 0, 0, 4096)"
    using qwen_request_sampling [of k b] by blast
next
  assume "VITE_DOBBY_KEY e = Some k' \<and> k' \<noteq> []"
  then have "snd (generateCaptionWithDobby e t d) =
      [CaptionInvoked d, Fetched (dobby_request k' t d)]"
    by (simp add: generateCaptionWithDobby_sends)
  then show "\<exists>sent. snd (generateCaptionWithDobby e t d) = [CaptionInvoked d, Fetched sent] \<and>
      (temperature (body sent), top_p (body sent), top_k (body sent),
       presence_penalty (body sent), frequency_penalty (body sent), max_tokens (body sent)) =
      (6 / 10, 1, 40, 0, 0, 4096)"
    using dobby_request_sampling [of k' t d] by blast
qed

theorem sampling_parameters_fixed_witness:
  "snd (handleGenerate env_ok (sample_state\<lparr>tone := ''brutal''\<rparr>)) =
     [AnalyzeInvoked sample_file, Fetched (qwen_request ''q'' ''data:image/png;base64,YWJj''),
      CaptionInvoked (JStr ''A cat on a sofa''),
      Fetched (dobby_request ''d'' ''brutal'' (JStr ''A cat on a sofa''))] \<and>
   (temperature (body (qwen_request ''q'' ''data:image/png;base64,YWJj'')),
    top_p (body (qwen_request ''q'' ''data:image/png;base64,YWJj'')),
    top_k (body (qwen_request ''q'' ''data:image/png;base64,YWJj'')),
    presence_penalty (body (qwen_request ''q'' ''data:image/png;base64,YWJj'')),
    frequency_penalty (body (qwen_request ''q'' ''data:image/png;base64,YWJj'')),
    max_tokens (body (qwen_request ''q'' ''data:image/png;base64,YWJj''))) =
   (6 / 10, 1, 40, 0, 0, 4096) \<and>
   (temperature (body (dobby_request ''d'' ''brutal'' (JStr ''A cat on a sofa''))),
    top_p (body (dobby_request ''d'' ''brutal'' (JStr ''A cat on a sofa''))),
    top_k (body (dobby_request ''d'' ''brutal'' (JStr ''A cat on a sofa''))),
    presence_penalty (body (dobby_request ''d'' ''brutal'' (JStr ''A cat on a sofa''))),
    frequency_penalty (body (dobby_request ''d'' ''brutal'' (JStr ''A cat on a sofa''))),
    max_tokens (body (dobby_request ''d'' ''brutal'' (JStr ''A cat on a sofa'')))) =
   (6 / 10, 1, 40, 0, 0, 4096) \<and>
   (\<exists>sent. snd (analyzeImageWithQwen env_ok sample_file) =
        [AnalyzeInvoked sample_file, Fetched sent] \<and>
      (temperature (body sent), top_p (body sent), top_k (body sent),
       presence_penalty (body sent), frequency_penalty (body sent), max_tokens (body sent)) =
      (6 / 10, 1, 40, 0, 0, 4096)) \<and>
   (\<exists>sent. snd (generateCaptionWithDobby env_ok ''brutal'' (JStr ''A cat on a sofa'')) =
        [CaptionInvoked (JStr ''A cat on a sofa''), Fetched sent] \<and>
      (temperature (body sent), top_p (body sent), top_k (body sent),
       presence_penalty (body sent), frequency_penalty (body sent), max_tokens (body sent)) =
      (6 / 10, 1, 40, 0, 0, 4096))"
proof -
  have tr: "snd (handleGenerate env_ok (sample_state\<lparr>tone := ''brutal''\<rparr>)) =
     [AnalyzeInvoked sample_file, Fetched (qwen_request ''q'' ''data:image/png;base64,YWJj''),
      CaptionInvoked (JStr ''A cat on a sofa''),
      Fetched (dobby_request ''d'' ''brutal'' (JStr ''A cat on a sofa''))]"
    by (simp add: sample_run)
  have q: "Fetched (qwen_request ''q'' ''data:image/png;base64,YWJj'')
      \<in> set (snd (handleGenerate env_ok (sample_state\<lparr>tone := ''brutal''\<rparr>)))"
    by (simp add: tr)
  have c: "Fetched (dobby_request ''d'' ''brutal'' (JStr ''A cat on a sofa''))
      \<in> set (snd (handleGenerate env_ok (sample_state\<lparr>tone := ''brutal''\<rparr>)))"
    by (simp only: tr) simp
  have keys: "VITE_QWEN_KEY env_ok = Some ''q''" "''q'' \<noteq> []"
    "readAsDataURL env_ok sample_file = Inr ''data:image/png;base64,YWJj''"
    "VITE_DOBBY_KEY env_ok = Some ''d''" "''d'' \<noteq> []"
    by (simp_all add: env_ok_def sample_env_simps)
  note inst = sampling_parameters_fixed
    [where e = env_ok and img = sample_file and t = "''brutal''"
       and d = "JStr ''A cat on a sofa''" and st = "sample_state\<lparr>tone := ''brutal''\<rparr>"
       and k = "''q''" and b = "''data:image/png;base64,YWJj''" and k' = "''d''"]
  show ?thesis
    using tr q c keys
      inst [where req = "qwen_request ''q'' ''data:image/png;base64,YWJj''"]
      inst [where req = "dobby_request ''d'' ''brutal'' (JStr ''A cat on a sofa'')"]
    by blast
qed

text \<open>
  C10. On an ok response whose content field is the empty string, the description client
  returns its fallback text, the caption client returns the empty string, and a run whose
  caption reply is such a response ends with the empty caption.
\<close>

theorem empty_content_asymmetry:
  assumes "ok resp" and "json_result resp = Inr data"
    and "choices_0_message_content e data = Inr (JStr [])"
  shows "(VITE_QWEN_KEY e = Some k \<and> k \<noteq> [] \<and> readAsDataURL e img = Inr b \<and>
          fetch e (qwen_request k b) = Inr resp
          \<longrightarrow> fst (analyzeImageWithQwen e img) = Inr (JStr qwen_fallback)) \<and>
         (VITE_DOBBY_KEY e = Some k' \<and> k' \<noteq> [] \<and> fetch e (dobby_request k' t d) = Inr resp
          \<longrightarrow> fst (generateCaptionWithDobby e t d) = Inr (JStr [])) \<and>
         (imageFile st = Some img' \<and> analyzeImageWithQwen e img' = (Inr d', evs) \<and>
          VITE_DOBBY_KEY e = Some k' \<and> k' \<noteq> [] \<and>
          fetch e (dobby_request k' (tone st) d') = Inr resp
          \<longrightarrow> fst (handleGenerate e st) = st\<lparr>caption := JStr [], loading := False\<rparr>)"
  using assms
  by (simp add: analyzeImageWithQwen_fetched generateCaptionWithDobby_fetched
      qwen_read_response_def dobby_read_response_def handleGenerate_Some try_block_Inr)

theorem empty_content_asymmetry_witness:
  "choices_0_message_content env_empty_content (completion (JStr [])) = Inr (JStr []) \<and>
   fst (analyzeImageWithQwen env_empty_content sample_file) = Inr (JStr qwen_fallback) \<and>
   fst (generateCaptionWithDobby env_empty_content ''witty'' (JStr qwen_fallback)) =
     Inr (JStr []) \<and>
   fst (handleGenerate env_empty_content sample_state) =
     sample_state\<lparr>caption := JStr [], loading := False\<rparr>"
proof -
  have h1: "ok (json_reply (completion (JStr [])))"
    by (simp add: reply_simps)
  have h2: "json_result (json_reply (completion (JStr []))) = Inr (completion (JStr []))"
    by (simp add: reply_simps)
  have h3: "choices_0_message_content env_empty_content (completion (JStr [])) = Inr (JStr [])"
    by (rule content_of_completion)
  have a: "analyzeImageWithQwen env_empty_content sample_file =
      (Inr (JStr qwen_fallback),
       [AnalyzeInvoked sample_file, Fetched (qwen_request ''q'' ''data:image/png;base64,YWJj'')])"
    by (simp add: env_empty_content_def sample_analyze qwen_read_response_def reply_simps
        content_of_completion)
  show ?thesis
    using h3 a
      empty_content_asymmetry [OF h1 h2 h3,
        where k = "''q''" and img = sample_file and b = "''data:image/png;base64,YWJj''"
          and k' = "''d''" and t = "''witty''" and d = "JStr qwen_fallback"
          and st = sample_state and img' = sample_file and d' = "JStr qwen_fallback"
          and evs = "[AnalyzeInvoked sample_file,
                      Fetched (qwen_request ''q'' ''data:image/png;base64,YWJj'')]"]
    by (simp add: env_empty_content_def sample_env_simps sample_state_simps)
qed

end
